theory Spec2Isabelle
  imports Complex_Main
begin

section \<open>The browser platform as seen by the content script\<close>

text \<open>
  The controller of \<^verbatim>\<open>extension/content/overlay.js\<close> runs inside a page. Everything it
  reads from the page (the element under a point, an element's tag, attributes, computed
  style and geometry, the viewport size, the current camera image, whether speech
  recognition exists, the stored \<^verbatim>\<open>isActive\<close> flag) is an input of the model, collected
  in the record \<open>browser\<close>. Everything it does to the outside (a message written to the
  socket, a timer, a click dispatched to the page, an alert) is appended, in program
  order, to the controller's list of \<open>effects\<close>. Console output is left out.

  JavaScript numbers are modelled by \<open>real\<close>; no property below depends on rounding.
\<close>

datatype js_error = TypeError | InvalidStateError

type_synonym node = nat

text \<open>
  The DOM interface an element implements. \<^verbatim>\<open>className\<close> is a string on HTML and MathML
  elements and an \<^verbatim>\<open>SVGAnimatedString\<close> object on SVG elements; \<^verbatim>\<open>click()\<close> is a method
  of \<^verbatim>\<open>HTMLElement\<close> only.
\<close>

datatype iface = HTMLElement | SVGElement | MathMLElement

datatype class_value = DOMString string | SVGAnimatedString string

record rect =
  rect_left :: real
  rect_top :: real
  rect_width :: real
  rect_height :: real

record element =
  iface :: iface
  tagName :: string
  onclick :: bool
  attributes :: "(string \<times> string) list"
  computedCursor :: string
  isContentEditable :: bool
  classAttr :: string
  boundingClientRect :: rect
  styleBackground :: string

record browser =
  innerWidth :: real
  innerHeight :: real
  scrollX :: real
  scrollY :: real
  elementFromPoint :: "real \<Rightarrow> real \<Rightarrow> node option"
  elementOf :: "node \<Rightarrow> element"
  body :: node
  documentElement :: node
  cameraFrame :: string
  speechRecognition :: bool
  storedIsActive :: bool

definition className :: "element \<Rightarrow> class_value" where
  "className e =
     (if iface e = SVGElement then SVGAnimatedString (classAttr e) else DOMString (classAttr e))"

definition getAttribute :: "element \<Rightarrow> string \<Rightarrow> string option" where
  "getAttribute e name = map_of (attributes e) name"

text \<open>JavaScript truthiness of a value that is a string or \<^verbatim>\<open>null\<close>.\<close>

fun truthy :: "string option \<Rightarrow> bool" where
  "truthy None = False"
| "truthy (Some s) = (s \<noteq> [])"

text \<open>
  \<^verbatim>\<open>String.prototype.toLowerCase\<close> and \<^verbatim>\<open>String.prototype.includes\<close>
  (here \<open>includesStr\<close>), on byte strings: the letters
  \<^verbatim>\<open>A\<close> to \<^verbatim>\<open>Z\<close> are lowered, every other byte is kept. The case mapping of letters
  outside ASCII is not modelled; it matters to the last test of the classifier only,
  for a class name that holds such a letter.
\<close>

definition lower_char :: "char \<Rightarrow> char" where
  "lower_char c =
     (let n = (of_char c :: nat) in if 65 \<le> n \<and> n \<le> 90 then char_of (n + 32) else c)"

definition toLowerCase :: "string \<Rightarrow> string" where
  "toLowerCase s = map lower_char s"

fun startsWith :: "string \<Rightarrow> string \<Rightarrow> bool" where
  "startsWith s [] = True"
| "startsWith [] (t # ts) = False"
| "startsWith (c # cs) (t # ts) = (c = t \<and> startsWith cs ts)"

fun includesStr :: "string \<Rightarrow> string \<Rightarrow> bool" where
  "includesStr [] t = (t = [])"
| "includesStr (c # cs) t = (startsWith (c # cs) t \<or> includesStr cs t)"

section \<open>The clickability classifier\<close>

definition clickableTags :: "string list" where
  "clickableTags = [''A'', ''BUTTON'', ''INPUT'', ''SELECT'', ''TEXTAREA'', ''LABEL'']"

definition clickableRoles :: "string list" where
  "clickableRoles = [''button'', ''link'', ''menuitem'', ''tab'', ''checkbox'', ''radio'']"

text \<open>
  \<^verbatim>\<open>isClickable(element)\<close>, lines 606 to 649. The argument is \<open>None\<close> for \<^verbatim>\<open>null\<close>.
  The last test calls \<^verbatim>\<open>element.className.toLowerCase()\<close> before it looks at the type of
  the result, so on an element whose \<^verbatim>\<open>className\<close> is not a string the call raises.
\<close>

definition isClickable :: "browser \<Rightarrow> node option \<Rightarrow> js_error + bool" where
  "isClickable w element =
     (case element of
        None \<Rightarrow> Inr False
      | Some n \<Rightarrow>
          (let e = elementOf w n in
           if tagName e \<in> set clickableTags then Inr True
           else if onclick e \<or> truthy (getAttribute e ''onclick'') then Inr True
           else if (case getAttribute e ''role'' of
                      None \<Rightarrow> False
                    | Some role \<Rightarrow> role \<noteq> [] \<and> role \<in> set clickableRoles) then Inr True
           else if computedCursor e = ''pointer'' then Inr True
           else if isContentEditable e then Inr True
           else (case className e of
                   SVGAnimatedString b \<Rightarrow> Inl TypeError
                 | DOMString c \<Rightarrow>
                     (let cl = toLowerCase c in
                      Inr (includesStr cl ''btn'' \<or> includesStr cl ''button'' \<or>
                           includesStr cl ''link'' \<or> includesStr cl ''clickable'')))))"

section \<open>The controller\<close>

datatype readyState = CONNECTING | OPEN | CLOSING | CLOSED

datatype command =
    load_model
  | start_calibration
  | start_tune
  | calibration_frame string
  | track_gaze string
  | stop

text \<open>The callbacks the controller hands to \<^verbatim>\<open>setTimeout\<close> and \<^verbatim>\<open>requestAnimationFrame\<close>.\<close>

datatype task =
    HideStatus
  | CloseSocket
  | SendFrame
  | TrackLoop
  | RestoreBackground node string
  | AutoActivate

datatype effect =
    Send command
  | SocketClose
  | Alert string
  | SetTimeout task nat
  | RequestAnimationFrame task
  | StorageSet bool
  | RecognitionStart
  | RecognitionStop
  | StopTracks
  | RemoveVideo
  | SetBackground node string
  | Click node
  | GetUserMedia
  | AppendVideo
  | NewWebSocket

record point =
  point_x :: real
  point_y :: real

record box_style =
  style_display :: string
  style_left :: "real option"
  style_top :: "real option"
  style_width :: "real option"
  style_height :: "real option"

text \<open>
  What the calibration overlay shows: the three templates assigned to its \<^verbatim>\<open>innerHTML\<close>,
  with the values they interpolate.
\<close>

datatype countdown_text = Message string | DetectingFace real

datatype overlay_html =
    NoHtml
  | CountdownHtml countdown_text real
  | PulseHtml real real real int
  | CaptureHtml real real real int

record overlay =
  overlay_display :: string
  innerHTML :: overlay_html

record status =
  status_display :: string
  textContent :: string

text \<open>
  The fields of \<^verbatim>\<open>EyeMouseController\<close>. \<open>ws\<close> is \<open>None\<close> for \<^verbatim>\<open>null\<close> and otherwise the
  \<^verbatim>\<open>readyState\<close> of the socket object; the camera objects are present or \<^verbatim>\<open>null\<close>.
  \<^verbatim>\<open>clientId\<close>, which only names the socket's address, is left out, and the four overlay
  elements are there from \<^verbatim>\<open>createOverlay()\<close> on.
\<close>

record controller =
  isActive :: bool
  isCalibrated :: bool
  ws :: "readyState option"
  videoStream :: bool
  videoElement :: bool
  canvas :: bool
  ctx :: bool
  calibrationPoints :: "point list"
  currentCalibrationIndex :: int
  cursorElement :: box_style
  highlightBox :: box_style
  calibrationOverlay :: overlay
  statusElement :: status
  currentElement :: "node option"
  recognition :: bool
  calibrationInterval :: "nat option"
  effects :: "effect list"

text \<open>
  A method either returns, or an exception leaves it; the assignments made before the
  exception stay.
\<close>

datatype outcome = Done controller | Threw js_error controller

fun andThen :: "outcome \<Rightarrow> (controller \<Rightarrow> outcome) \<Rightarrow> outcome" where
  "andThen (Done s) f = f s"
| "andThen (Threw e s) f = Threw e s"

fun final :: "outcome \<Rightarrow> controller" where
  "final (Done s) = s"
| "final (Threw e s) = s"

definition emit :: "effect \<Rightarrow> controller \<Rightarrow> controller" where
  "emit e s = s\<lparr>effects := effects s @ [e]\<rparr>"

text \<open>The constructor, followed by \<^verbatim>\<open>createOverlay()\<close>: all four overlay elements hidden.\<close>

definition hidden_box :: box_style where
  "hidden_box = \<lparr>style_display = ''none'', style_left = None, style_top = None,
                  style_width = None, style_height = None\<rparr>"

definition newController :: controller where
  "newController =
     \<lparr>isActive = False, isCalibrated = False, ws = None, videoStream = False,
      videoElement = False, canvas = False, ctx = False, calibrationPoints = [],
      currentCalibrationIndex = 0, cursorElement = hidden_box, highlightBox = hidden_box,
      calibrationOverlay = \<lparr>overlay_display = ''none'', innerHTML = NoHtml\<rparr>,
      statusElement = \<lparr>status_display = ''none'', textContent = []\<rparr>,
      currentElement = None, recognition = False, calibrationInterval = None,
      effects = []\<rparr>"

text \<open>
  \<^verbatim>\<open>init()\<close>, lines 24 to 79, up to the registration of the listeners: speech recognition is
  set up where the browser has it, and a stored active flag schedules the activation.
\<close>

definition setupVoiceRecognition :: "browser \<Rightarrow> controller \<Rightarrow> controller" where
  "setupVoiceRecognition w s = (if \<not> speechRecognition w then s else s\<lparr>recognition := True\<rparr>)"

definition init :: "browser \<Rightarrow> controller" where
  "init w =
     (let s = setupVoiceRecognition w newController
      in if storedIsActive w then emit (SetTimeout AutoActivate 1000) s else s)"

definition showStatus :: "string \<Rightarrow> controller \<Rightarrow> controller" where
  "showStatus message s =
     s\<lparr>statusElement := \<lparr>status_display = ''block'', textContent = message\<rparr>\<rparr>"

definition hideStatus :: "controller \<Rightarrow> controller" where
  "hideStatus s = s\<lparr>statusElement := (statusElement s)\<lparr>status_display := ''none''\<rparr>\<rparr>"

text \<open>
  \<^verbatim>\<open>this.ws.send(...)\<close> without a guard: a \<^verbatim>\<open>null\<close> socket raises \<^verbatim>\<open>TypeError\<close>, a
  connecting one \<^verbatim>\<open>InvalidStateError\<close>, an open one transmits, and a closing or closed one
  drops the data silently.
\<close>

definition ws_send :: "command \<Rightarrow> controller \<Rightarrow> outcome" where
  "ws_send c s =
     (case ws s of
        None \<Rightarrow> Threw TypeError s
      | Some CONNECTING \<Rightarrow> Threw InvalidStateError s
      | Some OPEN \<Rightarrow> Done (emit (Send c) s)
      | Some CLOSING \<Rightarrow> Done s
      | Some CLOSED \<Rightarrow> Done s)"

text \<open>\<^verbatim>\<open>this.ws.close()\<close> on a socket that is there.\<close>

definition ws_close :: "controller \<Rightarrow> controller" where
  "ws_close s =
     emit SocketClose
       (s\<lparr>ws := (case ws s of
                   Some OPEN \<Rightarrow> Some CLOSING
                 | Some CONNECTING \<Rightarrow> Some CLOSING
                 | r \<Rightarrow> r)\<rparr>)"

text \<open>\<^verbatim>\<open>captureFrame()\<close>, lines 571 to 574: draws the video on the canvas and encodes it.\<close>

definition captureFrame :: "browser \<Rightarrow> controller \<Rightarrow> js_error + string" where
  "captureFrame w s =
     (if ctx s \<and> videoElement s \<and> canvas s then Inr (cameraFrame w) else Inl TypeError)"

section \<open>Calibration and tuning\<close>

text \<open>
  The closure \<^verbatim>\<open>sendFrame\<close> of \<^verbatim>\<open>startSendingCalibrationFrames()\<close>, lines 409 to 423: one
  iteration of the calibration stream. It re-arms itself with \<^verbatim>\<open>requestAnimationFrame\<close>.
\<close>

definition sendFrame :: "browser \<Rightarrow> controller \<Rightarrow> outcome" where
  "sendFrame w s =
     (if \<not> isActive s \<or> isCalibrated s then Done s
      else (case captureFrame w s of
              Inl e \<Rightarrow> Threw e s
            | Inr frameData \<Rightarrow>
                Done (emit (RequestAnimationFrame SendFrame)
                       (if ws s \<noteq> None \<and> ws s = Some OPEN
                        then emit (Send (calibration_frame frameData)) s
                        else s))))"

definition startSendingCalibrationFrames :: "browser \<Rightarrow> controller \<Rightarrow> outcome" where
  "startSendingCalibrationFrames w s = sendFrame w s"

text \<open>
  The closure \<^verbatim>\<open>trackLoop\<close> of \<^verbatim>\<open>startTracking()\<close>, lines 556 to 566: one iteration of
  the tracking stream.
\<close>

definition trackLoop :: "browser \<Rightarrow> controller \<Rightarrow> outcome" where
  "trackLoop w s =
     (if \<not> isActive s \<or> \<not> isCalibrated s then Done s
      else (case captureFrame w s of
              Inl e \<Rightarrow> Threw e s
            | Inr frameData \<Rightarrow>
                andThen (ws_send (track_gaze frameData) s)
                  (\<lambda>s1. Done (emit (RequestAnimationFrame TrackLoop) s1))))"

definition startTracking :: "browser \<Rightarrow> controller \<Rightarrow> outcome" where
  "startTracking w s = trackLoop w s"

definition showOverlay :: "controller \<Rightarrow> controller" where
  "showOverlay s =
     s\<lparr>calibrationOverlay := (calibrationOverlay s)\<lparr>overlay_display := ''block''\<rparr>\<rparr>"

definition startCalibration :: "controller \<Rightarrow> outcome" where
  "startCalibration s =
     ws_send start_calibration
       ((showOverlay (showStatus ''Starting calibration...'' s))
          \<lparr>currentCalibrationIndex := 0\<rparr>)"

text \<open>
  \<^verbatim>\<open>startTune()\<close>, lines 394 to 405. The refusal is the \<^verbatim>\<open>alert\<close> followed by \<^verbatim>\<open>return\<close>;
  the method raises nothing of its own.
\<close>

definition startTune :: "controller \<Rightarrow> outcome" where
  "startTune s =
     (if \<not> isCalibrated s then Done (emit (Alert ''Please calibrate first before tuning!'') s)
      else ws_send start_tune
             ((showOverlay (showStatus ''Starting tune with 10 random points...'' s))
                \<lparr>currentCalibrationIndex := 0\<rparr>))"

definition setOverlayHtml :: "overlay_html \<Rightarrow> controller \<Rightarrow> controller" where
  "setOverlayHtml h s = s\<lparr>calibrationOverlay := (calibrationOverlay s)\<lparr>innerHTML := h\<rparr>\<rparr>"

definition updateCalibrationOverlay :: "countdown_text \<Rightarrow> real \<Rightarrow> controller \<Rightarrow> controller" where
  "updateCalibrationOverlay message progress s = setOverlayHtml (CountdownHtml message progress) s"

text \<open>
  \<^verbatim>\<open>this.calibrationPoints[this.currentCalibrationIndex]\<close>: \<^verbatim>\<open>undefined\<close> outside the array,
  and reading \<^verbatim>\<open>.x\<close> of it raises.
\<close>

definition pointAt :: "point list \<Rightarrow> int \<Rightarrow> point option" where
  "pointAt ps i = (if 0 \<le> i \<and> i < int (length ps) then Some (ps ! nat i) else None)"

definition updateCalibrationPointPulse :: "browser \<Rightarrow> real \<Rightarrow> controller \<Rightarrow> outcome" where
  "updateCalibrationPointPulse w progress s =
     (case pointAt (calibrationPoints s) (currentCalibrationIndex s) of
        None \<Rightarrow> Threw TypeError s
      | Some pt \<Rightarrow>
          Done (setOverlayHtml
                  (PulseHtml (point_x pt * innerWidth w) (point_y pt * innerHeight w) progress
                     (currentCalibrationIndex s + 1)) s))"

definition updateCalibrationPointCapture :: "browser \<Rightarrow> real \<Rightarrow> controller \<Rightarrow> outcome" where
  "updateCalibrationPointCapture w progress s =
     (case pointAt (calibrationPoints s) (currentCalibrationIndex s) of
        None \<Rightarrow> Threw TypeError s
      | Some pt \<Rightarrow>
          Done (setOverlayHtml
                  (CaptureHtml (point_x pt * innerWidth w) (point_y pt * innerHeight w) progress
                     (currentCalibrationIndex s + 1)) s))"

definition hideCalibration :: "controller \<Rightarrow> controller" where
  "hideCalibration s =
     (let s1 = (if calibrationInterval s \<noteq> None then s\<lparr>calibrationInterval := None\<rparr> else s)
      in s1\<lparr>calibrationOverlay := (calibrationOverlay s1)\<lparr>overlay_display := ''none''\<rparr>\<rparr>)"

section \<open>Targeting and activation\<close>

record gaze =
  gaze_x :: "real option"
  gaze_y :: "real option"
  double_blink :: bool

definition hideHighlight :: "controller \<Rightarrow> controller" where
  "hideHighlight s = s\<lparr>highlightBox := (highlightBox s)\<lparr>style_display := ''none''\<rparr>\<rparr>"

definition updateHighlight :: "browser \<Rightarrow> node option \<Rightarrow> controller \<Rightarrow> controller" where
  "updateHighlight w element s =
     (case element of
        None \<Rightarrow> hideHighlight s
      | Some n \<Rightarrow>
          if n = body w \<or> n = documentElement w then hideHighlight s
          else (let r = boundingClientRect (elementOf w n) in
                s\<lparr>highlightBox :=
                    \<lparr>style_display = ''block'',
                     style_left = Some (rect_left r + scrollX w),
                     style_top = Some (rect_top r + scrollY w),
                     style_width = Some (rect_width r),
                     style_height = Some (rect_height r)\<rparr>\<rparr>))"

text \<open>
  \<^verbatim>\<open>clickElement(element)\<close>, lines 665 to 677: the tint, the timer that reverts it after
  200 ms, and the call of \<^verbatim>\<open>element.click()\<close>, which only an HTML element has.
\<close>

definition clickElement :: "browser \<Rightarrow> node \<Rightarrow> controller \<Rightarrow> outcome" where
  "clickElement w n s =
     (let originalBg = styleBackground (elementOf w n);
          s1 = emit (SetBackground n ''rgba(0, 255, 0, 0.3)'') s;
          s2 = emit (SetTimeout (RestoreBackground n originalBg) 200) s1
      in if iface (elementOf w n) = HTMLElement then Done (emit (Click n) s2)
         else Threw TypeError s2)"

text \<open>
  \<^verbatim>\<open>updateGaze(data)\<close>, lines 576 to 604, in its two statements: \<open>updateGaze_snap\<close> is the
  block guarded by the presence of both coordinates (lines 577 to 598), \<open>updateGaze_blink\<close>
  the double-blink test that follows it (lines 601 to 603). A coordinate of a sample is
  \<^verbatim>\<open>null\<close> or a finite number; a sample whose coordinate is missing or not finite, on
  which \<^verbatim>\<open>document.elementFromPoint\<close> raises, is not among the samples of the model.
\<close>

definition updateGaze_snap :: "browser \<Rightarrow> gaze \<Rightarrow> controller \<Rightarrow> outcome" where
  "updateGaze_snap w d s =
     (if gaze_x d \<noteq> None \<and> gaze_y d \<noteq> None then
        (let x = the (gaze_x d) * innerWidth w;
             y = the (gaze_y d) * innerHeight w;
             s1 = s\<lparr>cursorElement :=
                      (cursorElement s)\<lparr>style_left := Some (x - 10), style_top := Some (y - 10)\<rparr>\<rparr>;
             element = elementFromPoint w x y
         in if element \<noteq> None \<and> element \<noteq> currentElement s1 then
              (case isClickable w element of
                 Inl e \<Rightarrow> Threw e s1
               | Inr c \<Rightarrow>
                   if c then Done ((updateHighlight w element s1)\<lparr>currentElement := element\<rparr>)
                   else Done ((hideHighlight s1)\<lparr>currentElement := None\<rparr>))
            else Done s1)
      else Done s)"

definition updateGaze_blink :: "browser \<Rightarrow> gaze \<Rightarrow> controller \<Rightarrow> outcome" where
  "updateGaze_blink w d s =
     (if double_blink d \<and> currentElement s \<noteq> None
      then clickElement w (the (currentElement s)) s
      else Done s)"

definition updateGaze :: "browser \<Rightarrow> gaze \<Rightarrow> controller \<Rightarrow> outcome" where
  "updateGaze w d s = andThen (updateGaze_snap w d s) (updateGaze_blink w d)"

section \<open>Inbound messages\<close>

text \<open>
  The parsed messages of the backend, by their \<^verbatim>\<open>type\<close>. \<open>calibration_complete\<close> carries
  \<^verbatim>\<open>success\<close>, the text of \<^verbatim>\<open>samples\<close> as the template prints it, and \<^verbatim>\<open>is_tune\<close>.
  \<open>other_message\<close> is any type the \<^verbatim>\<open>switch\<close> has no case for.
\<close>

datatype message =
    calibration_started "point list"
  | calibration_face_countdown "string option" real
  | calibration_point_start int
  | calibration_pulse real
  | calibration_capture real
  | calibration_complete bool string bool
  | model_loaded bool
  | gaze_update gaze
  | backend_error string
  | other_message string

fun handleBackendMessage :: "browser \<Rightarrow> message \<Rightarrow> controller \<Rightarrow> outcome" where
  "handleBackendMessage w (calibration_started points) s =
     startSendingCalibrationFrames w
       (showOverlay
          (showStatus ''Look at the screen and hold still...''
             (s\<lparr>calibrationPoints := points\<rparr>)))"
| "handleBackendMessage w (calibration_face_countdown message progress) s =
     (if truthy message
      then Done (updateCalibrationOverlay (Message (the message)) progress s)
      else Done (updateCalibrationOverlay (DetectingFace progress) progress s))"
| "handleBackendMessage w (calibration_point_start index) s =
     Done (s\<lparr>currentCalibrationIndex := index\<rparr>)"
| "handleBackendMessage w (calibration_pulse progress) s =
     updateCalibrationPointPulse w progress s"
| "handleBackendMessage w (calibration_capture progress) s =
     updateCalibrationPointCapture w progress s"
| "handleBackendMessage w (calibration_complete success samples is_tune) s =
     (if success then
        (let s1 = hideCalibration (s\<lparr>isCalibrated := True\<rparr>);
             msg = (if is_tune
                    then ''Tune complete! Model improved with '' @ samples @ '' total samples''
                    else ''Calibration complete! ('' @ samples @ '' samples)'');
             s2 = emit (SetTimeout HideStatus 3000) (showStatus msg s1)
         in startTracking w s2)
      else Done s)"
| "handleBackendMessage w (model_loaded success) s =
     (if success then
        (let s1 = showStatus ''Model loaded. Tracking started.'' (s\<lparr>isCalibrated := True\<rparr>);
             s2 = emit (SetTimeout HideStatus 2000) s1
         in startTracking w s2)
      else startCalibration s)"
| "handleBackendMessage w (gaze_update d) s = updateGaze w d s"
| "handleBackendMessage w (backend_error message) s = Done s"
| "handleBackendMessage w (other_message t) s = Done s"

section \<open>Activation, deactivation and page unload\<close>

text \<open>
  \<^verbatim>\<open>activate()\<close>, lines 186 to 239, is asynchronous; each function below is the code
  between two of its suspension points. \<open>activate_begin\<close> runs up to the camera request
  (\<open>None\<close>: returned at once, already active), \<open>activate_granted\<close> from the granted camera
  to the pending connection, \<open>activate_connected\<close> after the socket has opened, and
  \<open>activate_failed\<close> is the \<^verbatim>\<open>catch\<close> block with the message of the error.
\<close>

definition activate_begin :: "controller \<Rightarrow> controller option" where
  "activate_begin s =
     (if isActive s then None
      else (let s1 = showStatus ''Activating EyeMouse...'' s;
                s2 = (if recognition s1 then emit RecognitionStart s1 else s1)
            in Some (emit GetUserMedia s2)))"

definition activate_granted :: "controller \<Rightarrow> controller" where
  "activate_granted s =
     emit NewWebSocket
       ((emit AppendVideo (s\<lparr>videoStream := True, videoElement := True\<rparr>))
          \<lparr>canvas := True, ctx := True, ws := Some CONNECTING\<rparr>)"

definition activate_failed :: "string \<Rightarrow> controller \<Rightarrow> controller" where
  "activate_failed message s =
     emit (SetTimeout HideStatus 3000) (showStatus (''Failed: '' @ message) s)"

text \<open>The socket has opened: the platform sets its \<^verbatim>\<open>readyState\<close> before \<^verbatim>\<open>onopen\<close> runs.\<close>

definition socket_opened :: "controller \<Rightarrow> controller" where
  "socket_opened s = s\<lparr>ws := (case ws s of Some CONNECTING \<Rightarrow> Some OPEN | r \<Rightarrow> r)\<rparr>"

definition errorMessage :: "js_error \<Rightarrow> string" where
  "errorMessage e =
     (case e of
        TypeError \<Rightarrow> ''Cannot read properties of null''
      | InvalidStateError \<Rightarrow> ''Still in CONNECTING state'')"

definition activate_connected :: "controller \<Rightarrow> controller" where
  "activate_connected s =
     (case ws_send load_model s of
        Threw e s1 \<Rightarrow> activate_failed (errorMessage e) s1
      | Done s1 \<Rightarrow>
          emit (StorageSet True)
            (s1\<lparr>isActive := True,
                cursorElement := (cursorElement s1)\<lparr>style_display := ''block''\<rparr>\<rparr>))"

text \<open>
  \<^verbatim>\<open>deactivate(cleanup = true)\<close>, lines 241 to 288, suspends once, at the write of the
  inactive flag to storage. \<open>deactivate_begin\<close> is the code before that point (\<open>None\<close>:
  returned at once, not active), \<open>deactivate_resume\<close> the code after it, and \<open>deactivate\<close>
  a call during whose suspension nothing else runs.
\<close>

definition deactivate_begin :: "controller \<Rightarrow> controller option" where
  "deactivate_begin s =
     (if \<not> isActive s then None
      else Some (emit (StorageSet False)
                   (hideStatus
                      (hideHighlight
                         (s\<lparr>isActive := False,
                            cursorElement := (cursorElement s)\<lparr>style_display := ''none''\<rparr>\<rparr>)))))"

definition deactivate_resume :: "bool \<Rightarrow> controller \<Rightarrow> controller" where
  "deactivate_resume cleanup s =
     (let s1 = (if cleanup \<and> ws s \<noteq> None \<and> ws s = Some OPEN then emit (Send stop) s else s);
          s2 = (if recognition s1 then emit RecognitionStop s1 else s1);
          s3 = (if videoStream s2 then (emit StopTracks s2)\<lparr>videoStream := False\<rparr> else s2);
          s4 = (if ws s3 \<noteq> None then emit (SetTimeout CloseSocket 100) s3 else s3)
      in if videoElement s4 then (emit RemoveVideo s4)\<lparr>videoElement := False\<rparr> else s4)"

definition deactivate :: "bool \<Rightarrow> controller \<Rightarrow> controller" where
  "deactivate cleanup s =
     (case deactivate_begin s of None \<Rightarrow> s | Some s1 \<Rightarrow> deactivate_resume cleanup s1)"

text \<open>The callback of the timer set by \<^verbatim>\<open>deactivate\<close>, lines 273 to 278.\<close>

definition closeSocket :: "controller \<Rightarrow> controller" where
  "closeSocket s = (if ws s \<noteq> None then (ws_close s)\<lparr>ws := None\<rparr> else s)"

text \<open>The \<^verbatim>\<open>beforeunload\<close> listener, lines 70 to 78.\<close>

definition beforeunload :: "controller \<Rightarrow> controller" where
  "beforeunload s = (if isActive s then (if ws s \<noteq> None then ws_close s else s) else s)"

text \<open>Running a callback that a timer or the display refresh has made due.\<close>

fun runTask :: "browser \<Rightarrow> task \<Rightarrow> controller \<Rightarrow> outcome" where
  "runTask w HideStatus s = Done (hideStatus s)"
| "runTask w CloseSocket s = Done (closeSocket s)"
| "runTask w SendFrame s = sendFrame w s"
| "runTask w TrackLoop s = trackLoop w s"
| "runTask w (RestoreBackground n bg) s = Done (emit (SetBackground n bg) s)"
| "runTask w AutoActivate s = (case activate_begin s of None \<Rightarrow> Done s | Some s1 \<Rightarrow> Done s1)"

text \<open>
  The same callback over \<open>n\<close> display refreshes in a row, each iteration being the one the
  previous one requested.
\<close>

fun iterateTask :: "browser \<Rightarrow> task \<Rightarrow> nat \<Rightarrow> controller \<Rightarrow> controller" where
  "iterateTask w t 0 s = s"
| "iterateTask w t (Suc n) s = iterateTask w t n (final (runTask w t s))"

text \<open>
  The highlight is hidden whenever the snap target is the body or the root element of
  the page.
\<close>

definition rootNotHighlighted :: "browser \<Rightarrow> controller \<Rightarrow> bool" where
  "rootNotHighlighted w s =
     (currentElement s = Some (body w) \<or> currentElement s = Some (documentElement w) \<longrightarrow>
        style_display (highlightBox s) = ''none'')"

section \<open>Observations on the effect list\<close>

text \<open>The commands written to the socket, in order, and the traffic on the socket
  (commands and the call of \<^verbatim>\<open>close()\<close>).\<close>

fun sent :: "effect list \<Rightarrow> command list" where
  "sent [] = []"
| "sent (Send c # es) = c # sent es"
| "sent (e # es) = sent es"

fun onSocket :: "effect \<Rightarrow> bool" where
  "onSocket (Send c) = True"
| "onSocket SocketClose = True"
| "onSocket e = False"

fun isCalibrationFrame :: "effect \<Rightarrow> bool" where
  "isCalibrationFrame (Send (calibration_frame f)) = True"
| "isCalibrationFrame e = False"

section \<open>The specification's words, for comparison\<close>

text \<open>
  The six signals of the clickability classifier as the specification lists them
  (section 4.4): interactive tag, click handler, interactive role, pointer cursor,
  editable, class-name vocabulary (case-insensitive substring).
\<close>

definition spec_signals :: "element \<Rightarrow> bool" where
  "spec_signals e =
     (tagName e \<in> {''A'', ''BUTTON'', ''INPUT'', ''SELECT'', ''TEXTAREA'', ''LABEL''} \<or>
      (onclick e \<or> truthy (getAttribute e ''onclick'')) \<or>
      getAttribute e ''role'' \<in>
        {Some ''button'', Some ''link'', Some ''menuitem'', Some ''tab'', Some ''checkbox'',
         Some ''radio''} \<or>
      computedCursor e = ''pointer'' \<or>
      isContentEditable e \<or>
      (includesStr (toLowerCase (classAttr e)) ''btn'' \<or>
       includesStr (toLowerCase (classAttr e)) ''button'' \<or>
       includesStr (toLowerCase (classAttr e)) ''link'' \<or>
       includesStr (toLowerCase (classAttr e)) ''clickable''))"

text \<open>
  The state graph of the calibration and tuning machine as the specification draws it
  (section 4.2). A stimulus is a local start command or an inbound message; a stimulus the
  graph has no edge for leaves the state as it is.
\<close>

datatype spec_state = Idle | AwaitingFaceLock | PointPulse int | PointCapture int

datatype stimulus = Local_start_calibration | Local_start_tune | Inbound message

fun spec_next :: "spec_state \<Rightarrow> stimulus \<Rightarrow> spec_state" where
  "spec_next Idle Local_start_calibration = AwaitingFaceLock"
| "spec_next Idle Local_start_tune = AwaitingFaceLock"
| "spec_next AwaitingFaceLock (Inbound (calibration_face_countdown m p)) = AwaitingFaceLock"
| "spec_next AwaitingFaceLock (Inbound (calibration_started ps)) = PointPulse 0"
| "spec_next (PointPulse i) (Inbound (calibration_pulse p)) = PointPulse i"
| "spec_next (PointPulse i) (Inbound (calibration_capture p)) = PointCapture i"
| "spec_next (PointCapture i) (Inbound (calibration_capture p)) = PointCapture i"
| "spec_next (PointCapture i) (Inbound (calibration_point_start j)) = PointPulse j"
| "spec_next (PointCapture i) (Inbound (calibration_complete ok n t)) = Idle"
| "spec_next st x = st"

fun spec_streaming :: "spec_state \<Rightarrow> bool" where
  "spec_streaming Idle = False"
| "spec_streaming st = True"

text \<open>What the controller does on a stimulus, and both sides run over a list of them.\<close>

fun react :: "browser \<Rightarrow> stimulus \<Rightarrow> controller \<Rightarrow> outcome" where
  "react w Local_start_calibration s = startCalibration s"
| "react w Local_start_tune s = startTune s"
| "react w (Inbound m) s = handleBackendMessage w m s"

fun spec_run :: "spec_state \<Rightarrow> stimulus list \<Rightarrow> spec_state" where
  "spec_run st [] = st"
| "spec_run st (x # xs) = spec_run (spec_next st x) xs"

fun run :: "browser \<Rightarrow> stimulus list \<Rightarrow> controller \<Rightarrow> controller" where
  "run w [] s = s"
| "run w (x # xs) s = run w xs (final (react w x s))"

section \<open>A page and the sessions of the examples\<close>

text \<open>
  A page of six elements, from top to bottom in bands of 100 pixels: the body (which has
  a click handler of its own), a button, a plain \<^verbatim>\<open>div\<close>, an \<^verbatim>\<open>svg\<close> icon, a second
  \<^verbatim>\<open>svg\<close> icon that lies inside a button and so has the pointer cursor as its computed
  style, and the body again. The root element is never under the point. The viewport is
  1000 by 800, scrolled down by 50.
\<close>

definition plainDiv :: element where
  "plainDiv =
     \<lparr>iface = HTMLElement, tagName = ''DIV'', onclick = False, attributes = [],
      computedCursor = ''auto'', isContentEditable = False, classAttr = ''content'',
      boundingClientRect = \<lparr>rect_left = 0, rect_top = 200, rect_width = 1000, rect_height = 100\<rparr>,
      styleBackground = ''white''\<rparr>"

definition demoElement :: "node \<Rightarrow> element" where
  "demoElement n =
     (if n = 0 then plainDiv\<lparr>tagName := ''HTML''\<rparr>
      else if n = 1 then plainDiv\<lparr>tagName := ''BODY'', onclick := True\<rparr>
      else if n = 2 then
        plainDiv\<lparr>tagName := ''BUTTON'', computedCursor := ''pointer'',
                 boundingClientRect :=
                   \<lparr>rect_left = 40, rect_top = 110, rect_width = 120, rect_height = 30\<rparr>\<rparr>
      else if n = 3 then plainDiv
      else if n = 4 then
        plainDiv\<lparr>iface := SVGElement, tagName := ''svg'', classAttr := ''icon''\<rparr>
      else
        plainDiv\<lparr>iface := SVGElement, tagName := ''svg'', classAttr := ''icon'',
                 computedCursor := ''pointer''\<rparr>)"

definition demoPage :: browser where
  "demoPage =
     \<lparr>innerWidth = 1000, innerHeight = 800, scrollX = 0, scrollY = 50,
      elementFromPoint =
        (\<lambda>x y. if y < 0 \<or> 800 \<le> y then None
               else if y < 100 then Some 1
               else if y < 200 then Some 2
               else if y < 300 then Some 3
               else if y < 400 then Some 4
               else if y < 500 then Some 5
               else Some 1),
      elementOf = demoElement, body = 1, documentElement = 0,
      cameraFrame = ''data:image/jpeg;base64,AAAA'',
      speechRecognition = True, storedIsActive = False\<rparr>"

definition fivePoints :: "point list" where
  "fivePoints =
     [\<lparr>point_x = 1/2, point_y = 1/2\<rparr>, \<lparr>point_x = 1/10, point_y = 1/10\<rparr>,
      \<lparr>point_x = 9/10, point_y = 1/10\<rparr>, \<lparr>point_x = 1/10, point_y = 9/10\<rparr>,
      \<lparr>point_x = 9/10, point_y = 9/10\<rparr>]"

text \<open>
  \<open>activeSession\<close>: a fresh controller activated with the camera granted and the socket
  opened. \<open>calibratingSession\<close>: that session after the backend found no saved model and
  announced the calibration points. \<open>trackingSession\<close>: the active session after the
  backend loaded a saved model.
\<close>

definition activeSession :: controller where
  "activeSession =
     activate_connected
       (socket_opened (activate_granted (the (activate_begin (init demoPage)))))"

definition calibratingSession :: controller where
  "calibratingSession =
     run demoPage [Inbound (model_loaded False), Inbound (calibration_started fivePoints)]
       activeSession"

definition trackingSession :: controller where
  "trackingSession = run demoPage [Inbound (model_loaded True)] activeSession"

text \<open>
  Gaze samples: at a fraction of the viewport, or with both coordinates \<^verbatim>\<open>null\<close>.
  \<open>snappedSession\<close> is the tracking session after a sample over the button,
  \<open>svgSnappedSession\<close> the tracking session after a sample over the icon in the button.
\<close>

definition gazeAt :: "real \<Rightarrow> real \<Rightarrow> bool \<Rightarrow> gaze" where
  "gazeAt x y b = \<lparr>gaze_x = Some x, gaze_y = Some y, double_blink = b\<rparr>"

definition gazeLost :: "bool \<Rightarrow> gaze" where
  "gazeLost b = \<lparr>gaze_x = None, gaze_y = None, double_blink = b\<rparr>"

definition snappedSession :: controller where
  "snappedSession = run demoPage [Inbound (gaze_update (gazeAt (1/2) (3/16) False))] trackingSession"

definition svgSnappedSession :: controller where
  "svgSnappedSession =
     run demoPage [Inbound (gaze_update (gazeAt (1/2) (9/16) False))] trackingSession"

text \<open>
  \<open>midCalibration\<close>: the calibrating session at its third point, the pulse under way.
  \<open>abortedCalibration\<close>: that session after the backend reported the calibration failed.
  \<open>tuneStimuli\<close>: a tuning pass requested and its points announced; \<open>tuningSession\<close>: the
  tracking session after them.
\<close>

definition midCalibration :: controller where
  "midCalibration =
     run demoPage [Inbound (calibration_point_start 2), Inbound (calibration_pulse (1/2))]
       calibratingSession"

definition abortedCalibration :: controller where
  "abortedCalibration =
     run demoPage [Inbound (calibration_complete False ''0'' False)] midCalibration"

definition tuneStimuli :: "stimulus list" where
  "tuneStimuli = [Local_start_tune, Inbound (calibration_started fivePoints)]"

definition tuningSession :: controller where
  "tuningSession = run demoPage tuneStimuli trackingSession"

text \<open>
  \<open>faceLockStimuli\<close>: a calibration requested and a first face countdown received.
  \<open>abortStimuli\<close>: a calibration requested, its points announced, the first point pulsed
  and captured, and the calibration reported as failed.
\<close>

definition faceLockStimuli :: "stimulus list" where
  "faceLockStimuli =
     [Local_start_calibration, Inbound (calibration_face_countdown None (1/2))]"

definition abortStimuli :: "stimulus list" where
  "abortStimuli =
     [Local_start_calibration, Inbound (calibration_started fivePoints),
      Inbound (calibration_pulse (1/2)), Inbound (calibration_capture (1/2)),
      Inbound (calibration_complete False ''0'' False)]"

section \<open>Unfolding rules and auxiliary facts\<close>

lemmas controller_defs =
  emit_def showStatus_def hideStatus_def ws_send_def ws_close_def captureFrame_def
  sendFrame_def startSendingCalibrationFrames_def trackLoop_def startTracking_def
  showOverlay_def startCalibration_def startTune_def setOverlayHtml_def
  updateCalibrationOverlay_def hideCalibration_def hideHighlight_def updateHighlight_def
  clickElement_def updateGaze_snap_def updateGaze_blink_def updateGaze_def
  updateCalibrationPointPulse_def updateCalibrationPointCapture_def pointAt_def
  deactivate_def deactivate_begin_def deactivate_resume_def closeSocket_def beforeunload_def

lemmas classifier_defs =
  isClickable_def className_def clickableTags_def clickableRoles_def getAttribute_def
  toLowerCase_def lower_char_def

lemmas scenario_defs =
  demoPage_def demoElement_def plainDiv_def fivePoints_def activeSession_def
  calibratingSession_def trackingSession_def snappedSession_def svgSnappedSession_def
  midCalibration_def
  abortedCalibration_def tuneStimuli_def tuningSession_def gazeAt_def gazeLost_def init_def
  setupVoiceRecognition_def newController_def hidden_box_def activate_begin_def
  activate_granted_def activate_connected_def socket_opened_def activate_failed_def

lemma sent_append: "sent (xs @ ys) = sent xs @ sent ys"
  by (induction xs rule: sent.induct) simp_all

subsection \<open>The classifier, signal by signal\<close>

lemma isClickable_null: "isClickable w None = Inr False"
  by (simp add: isClickable_def)

lemma isClickable_tag:
  "tagName (elementOf w n) \<in> set clickableTags \<Longrightarrow> isClickable w (Some n) = Inr True"
  by (simp add: isClickable_def)

lemma isClickable_role:
  "getAttribute (elementOf w n) ''role'' = Some r \<Longrightarrow> r \<in> set clickableRoles \<Longrightarrow>
   isClickable w (Some n) = Inr True"
  by (auto simp add: isClickable_def Let_def clickableRoles_def)

lemma isClickable_cursor:
  "computedCursor (elementOf w n) = ''pointer'' \<Longrightarrow> isClickable w (Some n) = Inr True"
  by (simp add: isClickable_def Let_def)

lemma role_signal:
  "(case getAttribute e ''role'' of
      None \<Rightarrow> False
    | Some role \<Rightarrow> role \<noteq> [] \<and> role \<in> set clickableRoles) =
   (getAttribute e ''role'' \<in>
      {Some ''button'', Some ''link'', Some ''menuitem'', Some ''tab'', Some ''checkbox'',
       Some ''radio''})"
  by (auto simp add: clickableRoles_def split: option.splits)

text \<open>
  On every element whose \<^verbatim>\<open>className\<close> is a string the classifier returns, and returns
  exactly the union of the six signals; on an SVG element it returns only when one of
  the first five signals is present.
\<close>

lemma isClickable_string_class:
  "iface (elementOf w n) \<noteq> SVGElement \<Longrightarrow>
   isClickable w (Some n) = Inr (spec_signals (elementOf w n))"
  unfolding isClickable_def spec_signals_def Let_def role_signal
  by (simp add: className_def clickableTags_def)

lemma isClickable_svg_without_signal:
  "iface (elementOf w n) = SVGElement \<Longrightarrow> \<not> spec_signals (elementOf w n) \<Longrightarrow>
   isClickable w (Some n) = Inl TypeError"
  unfolding isClickable_def spec_signals_def Let_def role_signal
  by (simp add: className_def clickableTags_def)

lemma isClickable_plain_div: "isClickable demoPage (Some 3) = Inr False"
  by (simp add: scenario_defs classifier_defs)

subsection \<open>The two statements of \<open>updateGaze\<close>\<close>

lemma snap_effects: "effects (final (updateGaze_snap w d s)) = effects s"
  by (simp add: updateGaze_snap_def Let_def updateHighlight_def hideHighlight_def
      split: sum.splits option.splits)

lemma snap_null: "gaze_x d = None \<or> gaze_y d = None \<Longrightarrow> updateGaze_snap w d s = Done s"
  by (auto simp add: updateGaze_snap_def)

lemma click_fields:
  "currentElement (final (clickElement w n s)) = currentElement s"
  "highlightBox (final (clickElement w n s)) = highlightBox s"
  by (simp_all add: clickElement_def Let_def emit_def)

lemma clickElement_effects:
  "effects (final (clickElement w n s)) =
     effects s @ [SetBackground n ''rgba(0, 255, 0, 0.3)'',
                  SetTimeout (RestoreBackground n (styleBackground (elementOf w n))) 200] @
     (if iface (elementOf w n) = HTMLElement then [Click n] else [])"
  by (simp add: clickElement_def Let_def emit_def)

lemma blink_fields:
  "currentElement (final (updateGaze_blink w d s)) = currentElement s"
  "highlightBox (final (updateGaze_blink w d s)) = highlightBox s"
  by (simp_all add: updateGaze_blink_def click_fields)

lemma updateGaze_fields:
  "currentElement (final (updateGaze w d s)) = currentElement (final (updateGaze_snap w d s))"
  "highlightBox (final (updateGaze w d s)) = highlightBox (final (updateGaze_snap w d s))"
  by (cases "updateGaze_snap w d s"; simp add: updateGaze_def blink_fields)+

lemma snap_keeps_root_hidden:
  "(currentElement s = Some (body w) \<or> currentElement s = Some (documentElement w) \<longrightarrow>
      style_display (highlightBox s) = ''none'') \<Longrightarrow>
   (currentElement (final (updateGaze_snap w d s)) = Some (body w) \<or>
    currentElement (final (updateGaze_snap w d s)) = Some (documentElement w) \<longrightarrow>
      style_display (highlightBox (final (updateGaze_snap w d s))) = ''none'')"
  by (auto simp add: updateGaze_snap_def Let_def updateHighlight_def hideHighlight_def
      split: sum.splits)

lemma snap_on_root:
  "gaze_x d = Some x \<Longrightarrow> gaze_y d = Some y \<Longrightarrow>
   elementFromPoint w (x * innerWidth w) (y * innerHeight w) = Some b \<Longrightarrow>
   b = body w \<or> b = documentElement w \<Longrightarrow> currentElement s \<noteq> Some b \<Longrightarrow>
   isClickable w (Some b) = Inr True \<Longrightarrow>
   currentElement (final (updateGaze_snap w d s)) = Some b \<and>
   style_display (highlightBox (final (updateGaze_snap w d s))) = ''none''"
  by (auto simp add: updateGaze_snap_def Let_def updateHighlight_def hideHighlight_def)

text \<open>
  A sample that arrives with no target and without coordinates does nothing at all,
  double blink or not.
\<close>

lemma lost_gaze_without_target:
  "currentElement s = None \<Longrightarrow> gaze_x d = None \<or> gaze_y d = None \<Longrightarrow>
   updateGaze w d s = Done s"
  by (simp add: updateGaze_def snap_null updateGaze_blink_def)

text \<open>
  A gaze sample with a double blink that finds a snap target when the double-blink test
  is reached invokes \<^verbatim>\<open>clickElement\<close> on it: the tint, the timer that reverts it after
  200 ms, and the click on an HTML element (on another element the call of
  \<^verbatim>\<open>element.click()\<close> raises). The test does not depend on the coordinates: when \<open>x\<close> or \<open>y\<close>
  is \<^verbatim>\<open>null\<close> and a target was snapped before the sample, \<^verbatim>\<open>clickElement\<close> is invoked on
  that target.
\<close>

lemma double_blink_activates:
  "double_blink d \<Longrightarrow>
     (updateGaze_snap w d s = Done s1 \<and> currentElement s1 = Some n \<longrightarrow>
        updateGaze w d s = clickElement w n s1 \<and>
        effects (final (updateGaze w d s)) =
          effects s1 @
            [SetBackground n ''rgba(0, 255, 0, 0.3)'',
             SetTimeout (RestoreBackground n (styleBackground (elementOf w n))) 200] @
            (if iface (elementOf w n) = HTMLElement then [Click n] else [])) \<and>
     ((gaze_x d = None \<or> gaze_y d = None) \<and> currentElement s = Some n \<longrightarrow>
        updateGaze w d s = clickElement w n s \<and>
        effects (final (updateGaze w d s)) =
          effects s @
            [SetBackground n ''rgba(0, 255, 0, 0.3)'',
             SetTimeout (RestoreBackground n (styleBackground (elementOf w n))) 200] @
            (if iface (elementOf w n) = HTMLElement then [Click n] else []))"
  by (auto simp add: updateGaze_def updateGaze_blink_def clickElement_effects snap_null)

lemma double_blink_activates_on_button:
  "double_blink (gazeLost True) \<and>
   (gaze_x (gazeLost True) = None \<or> gaze_y (gazeLost True) = None) \<and>
   updateGaze_snap demoPage (gazeLost True) snappedSession = Done snappedSession \<and>
   currentElement snappedSession = Some 2 \<and>
   effects (final (updateGaze demoPage (gazeLost True) snappedSession)) =
     effects snappedSession @
       [SetBackground 2 ''rgba(0, 255, 0, 0.3)'',
        SetTimeout (RestoreBackground 2 ''white'') 200, Click 2]"
  using double_blink_activates [of "gazeLost True" demoPage snappedSession snappedSession 2]
  by (simp add: scenario_defs controller_defs classifier_defs)

lemma clickElement_without_click_method:
  "iface (elementOf w n) \<noteq> HTMLElement \<Longrightarrow>
   clickElement w n s =
     Threw TypeError
       (emit (SetTimeout (RestoreBackground n (styleBackground (elementOf w n))) 200)
          (emit (SetBackground n ''rgba(0, 255, 0, 0.3)'') s))"
  by (simp add: clickElement_def Let_def)

text \<open>
  A sample with coordinates is resolved before its double blink is looked at: from a
  session without a target, one sample over the button with a double blink snaps to the
  button and clicks it.
\<close>

lemma snap_and_blink_in_one_sample:
  "currentElement trackingSession = None \<and>
   effects (final (updateGaze demoPage (gazeAt (1/2) (3/16) True) trackingSession)) =
     effects trackingSession @
       [SetBackground 2 ''rgba(0, 255, 0, 0.3)'',
        SetTimeout (RestoreBackground 2 ''white'') 200, Click 2]"
  by (simp add: scenario_defs controller_defs classifier_defs)

text \<open>
  A sample over an element on which the classifier raises leaves the method before the
  double-blink test: the target and the highlight stay on the element snapped before.
\<close>

lemma gaze_over_svg_icon:
  "updateGaze demoPage (gazeAt (1/2) (7/16) True) snappedSession =
     Threw TypeError
       (snappedSession\<lparr>cursorElement :=
          (cursorElement snappedSession)\<lparr>style_left := Some 490, style_top := Some 340\<rparr>\<rparr>)"
  by (simp add: scenario_defs controller_defs classifier_defs)

subsection \<open>Field by field\<close>

lemma emit_fields:
  "isActive (emit e s) = isActive s" "isCalibrated (emit e s) = isCalibrated s"
  "ws (emit e s) = ws s" "ctx (emit e s) = ctx s" "videoElement (emit e s) = videoElement s"
  "canvas (emit e s) = canvas s" "effects (emit e s) = effects s @ [e]"
  "calibrationOverlay (emit e s) = calibrationOverlay s"
  by (simp_all add: emit_def)

lemma showStatus_fields:
  "isActive (showStatus m s) = isActive s" "isCalibrated (showStatus m s) = isCalibrated s"
  "ws (showStatus m s) = ws s" "ctx (showStatus m s) = ctx s"
  "videoElement (showStatus m s) = videoElement s" "canvas (showStatus m s) = canvas s"
  "effects (showStatus m s) = effects s"
  "calibrationOverlay (showStatus m s) = calibrationOverlay s"
  by (simp_all add: showStatus_def)

lemma hideCalibration_fields:
  "isActive (hideCalibration s) = isActive s" "isCalibrated (hideCalibration s) = isCalibrated s"
  "ws (hideCalibration s) = ws s" "ctx (hideCalibration s) = ctx s"
  "videoElement (hideCalibration s) = videoElement s" "canvas (hideCalibration s) = canvas s"
  "effects (hideCalibration s) = effects s"
  "overlay_display (calibrationOverlay (hideCalibration s)) = ''none''"
  by (simp_all add: hideCalibration_def Let_def)

subsection \<open>The two streams\<close>

lemma trackLoop_fields:
  "isCalibrated (final (trackLoop w s)) = isCalibrated s"
  "isActive (final (trackLoop w s)) = isActive s"
  "calibrationOverlay (final (trackLoop w s)) = calibrationOverlay s"
  by (simp_all add: trackLoop_def captureFrame_def ws_send_def emit_def
      split: option.splits readyState.splits)

lemma sendFrame_stopped: "\<not> isActive s \<or> isCalibrated s \<Longrightarrow> sendFrame w s = Done s"
  by (auto simp add: sendFrame_def)

lemma sendFrame_live:
  "isActive s \<Longrightarrow> \<not> isCalibrated s \<Longrightarrow> ctx s \<and> videoElement s \<and> canvas s \<Longrightarrow>
   sendFrame w s =
     Done (emit (RequestAnimationFrame SendFrame)
            (if ws s = Some OPEN then emit (Send (calibration_frame (cameraFrame w))) s else s))"
  by (auto simp add: sendFrame_def captureFrame_def)

lemma trackLoop_stopped: "\<not> isActive s \<or> \<not> isCalibrated s \<Longrightarrow> trackLoop w s = Done s"
  by (auto simp add: trackLoop_def)

lemma trackLoop_live:
  "isActive s \<Longrightarrow> isCalibrated s \<Longrightarrow> ws s = Some OPEN \<Longrightarrow>
   ctx s \<and> videoElement s \<and> canvas s \<Longrightarrow>
   trackLoop w s =
     Done (emit (RequestAnimationFrame TrackLoop) (emit (Send (track_gaze (cameraFrame w))) s))"
  by (simp add: trackLoop_def captureFrame_def ws_send_def)

lemma sendFrame_same:
  "isActive (final (sendFrame w s)) = isActive s"
  "isCalibrated (final (sendFrame w s)) = isCalibrated s"
  "ws (final (sendFrame w s)) = ws s"
  "ctx (final (sendFrame w s)) = ctx s"
  "videoElement (final (sendFrame w s)) = videoElement s"
  "canvas (final (sendFrame w s)) = canvas s"
  by (simp_all add: sendFrame_def captureFrame_def emit_def)

lemma trackLoop_same:
  "ws (final (trackLoop w s)) = ws s"
  "ctx (final (trackLoop w s)) = ctx s"
  "videoElement (final (trackLoop w s)) = videoElement s"
  "canvas (final (trackLoop w s)) = canvas s"
  by (simp_all add: trackLoop_def captureFrame_def ws_send_def emit_def
      split: option.splits readyState.splits)

text \<open>
  While their conditions hold the streams run on: \<open>n\<close> refreshes send \<open>n\<close> frames, each
  followed by the request for the next iteration.
\<close>

lemma calibration_stream_runs:
  "isActive s \<Longrightarrow> \<not> isCalibrated s \<Longrightarrow> ws s = Some OPEN \<Longrightarrow>
   ctx s \<and> videoElement s \<and> canvas s \<Longrightarrow>
   effects (iterateTask w SendFrame n s) =
     effects s @
       concat (replicate n
         [Send (calibration_frame (cameraFrame w)), RequestAnimationFrame SendFrame])"
proof (induction n arbitrary: s)
  case 0
  then show ?case by simp
next
  case (Suc n)
  have step: "effects (final (sendFrame w s)) =
      effects s @ [Send (calibration_frame (cameraFrame w)), RequestAnimationFrame SendFrame]"
    using Suc.prems by (simp add: sendFrame_live emit_def)
  show ?case
    using Suc.prems Suc.IH [of "final (sendFrame w s)"]
    by (simp add: sendFrame_same step)
qed

lemma tracking_stream_runs:
  "isActive s \<Longrightarrow> isCalibrated s \<Longrightarrow> ws s = Some OPEN \<Longrightarrow>
   ctx s \<and> videoElement s \<and> canvas s \<Longrightarrow>
   effects (iterateTask w TrackLoop n s) =
     effects s @
       concat (replicate n
         [Send (track_gaze (cameraFrame w)), RequestAnimationFrame TrackLoop])"
proof (induction n arbitrary: s)
  case 0
  then show ?case by simp
next
  case (Suc n)
  have step: "effects (final (trackLoop w s)) =
      effects s @ [Send (track_gaze (cameraFrame w)), RequestAnimationFrame TrackLoop]"
    using Suc.prems by (simp add: trackLoop_live emit_def)
  show ?case
    using Suc.prems Suc.IH [of "final (trackLoop w s)"]
    by (simp add: trackLoop_same trackLoop_fields step)
qed

text \<open>
  Nothing in the controller sets the calibrated flag back to false: a recalibration or
  a tuning pass of a calibrated session starts with the flag true.
\<close>

lemma startCalibration_keeps_flag: "isCalibrated (final (startCalibration s)) = isCalibrated s"
  by (simp add: startCalibration_def ws_send_def emit_def showOverlay_def showStatus_def
      split: option.splits readyState.splits)

lemma startTune_keeps_flag: "isCalibrated (final (startTune s)) = isCalibrated s"
  by (simp add: startTune_def ws_send_def emit_def showOverlay_def showStatus_def
      split: option.splits readyState.splits)

subsection \<open>The highlight and the root elements, over a whole run\<close>

lemma handle_other_fields:
  "\<forall>d. m \<noteq> gaze_update d \<Longrightarrow>
   currentElement (final (handleBackendMessage w m s)) = currentElement s \<and>
   highlightBox (final (handleBackendMessage w m s)) = highlightBox s"
  by (cases m)
    (auto simp add: controller_defs Let_def split: option.splits readyState.splits)

lemma updateGaze_root:
  "rootNotHighlighted w s \<Longrightarrow> rootNotHighlighted w (final (updateGaze w d s))"
  unfolding rootNotHighlighted_def using snap_keeps_root_hidden [of s w d]
  by (simp add: updateGaze_fields)

lemma handle_root:
  "rootNotHighlighted w s \<Longrightarrow> rootNotHighlighted w (final (handleBackendMessage w m s))"
proof (cases "\<exists>d. m = gaze_update d")
  case True
  then show "rootNotHighlighted w s \<Longrightarrow> ?thesis"
    by (auto simp add: updateGaze_root)
next
  case False
  then show "rootNotHighlighted w s \<Longrightarrow> ?thesis"
    using handle_other_fields [of m w s] by (simp add: rootNotHighlighted_def)
qed

lemma start_fields:
  "currentElement (final (startCalibration s)) = currentElement s"
  "highlightBox (final (startCalibration s)) = highlightBox s"
  "currentElement (final (startTune s)) = currentElement s"
  "highlightBox (final (startTune s)) = highlightBox s"
  by (simp_all add: startCalibration_def startTune_def ws_send_def emit_def showOverlay_def
      showStatus_def split: option.splits readyState.splits)

lemma react_root: "rootNotHighlighted w s \<Longrightarrow> rootNotHighlighted w (final (react w x s))"
  by (cases x) (simp_all add: handle_root, simp_all add: rootNotHighlighted_def start_fields)

lemma run_root: "rootNotHighlighted w s \<Longrightarrow> rootNotHighlighted w (run w xs s)"
  by (induction xs arbitrary: s) (simp_all add: react_root)

lemma init_root: "rootNotHighlighted w (init w')"
  by (simp add: rootNotHighlighted_def init_def setupVoiceRecognition_def newController_def
      emit_def Let_def)

subsection \<open>Outside a live session\<close>

text \<open>
  What the same methods do when the session is not active or its socket is not open.
  A tuning request in a calibrated controller without a socket raises before anything
  is sent, and on a closed socket the command is dropped; the two halves of a
  deactivation, taken apart, put nothing and exactly one \<^verbatim>\<open>stop\<close> on an open socket; a
  deactivation whose socket is not open sends no \<^verbatim>\<open>stop\<close>; a successful completion that
  arrives after the deactivation sets the flag and starts no tracking.
\<close>

lemma startTune_without_socket:
  "isCalibrated s \<Longrightarrow> ws s = None \<Longrightarrow>
   startTune s =
     Threw TypeError
       ((showOverlay (showStatus ''Starting tune with 10 random points...'' s))
          \<lparr>currentCalibrationIndex := 0\<rparr>)"
  by (simp add: startTune_def ws_send_def showOverlay_def showStatus_def)

lemma startTune_on_closed_socket:
  "isCalibrated s \<Longrightarrow> ws s = Some CLOSED \<Longrightarrow>
   effects (final (startTune s)) = effects s"
  by (simp add: startTune_def ws_send_def showOverlay_def showStatus_def)

lemma deactivate_phases:
  "deactivate_begin s = Some s1 \<Longrightarrow> filter onSocket (effects s1) = filter onSocket (effects s)"
  "ws s1 = Some OPEN \<Longrightarrow>
   filter onSocket (effects (deactivate_resume True s1)) =
     filter onSocket (effects s1) @ [Send stop]"
  by (auto simp add: deactivate_begin_def deactivate_resume_def emit_def hideStatus_def
      hideHighlight_def Let_def split: if_splits)

lemma deactivate_without_open_socket:
  "ws s \<noteq> Some OPEN \<Longrightarrow> sent (effects (deactivate True s)) = sent (effects s)"
  by (simp add: deactivate_def deactivate_begin_def deactivate_resume_def emit_def
      hideStatus_def hideHighlight_def sent_append Let_def)

lemma completion_when_inactive:
  "\<not> isActive s \<Longrightarrow>
   effects (final (handleBackendMessage w (calibration_complete True samples is_tune) s)) =
     effects s @ [SetTimeout HideStatus 3000]"
  by (simp add: Let_def startTracking_def trackLoop_def emit_def showStatus_def
      hideCalibration_def)

section \<open>The claims\<close>

text \<open>
  C1. An inbound \<^verbatim>\<open>calibration_complete\<close> with \<^verbatim>\<open>success = true\<close>, from a calibration or
  from a tuning pass (\<open>is_tune\<close> is arbitrary, and so is the flag before): the calibrated
  flag is true afterwards, the calibration overlay is hidden, and an iteration of the
  calibration stream that comes due afterwards sends nothing and does not re-arm. In an
  active session whose socket is open and whose camera objects exist, the handler
  returns, the first \<^verbatim>\<open>track_gaze\<close> frame is sent at once, the tracking loop is armed on
  the display refresh, and every one of its next \<open>n\<close> iterations sends a frame and re-arms.
\<close>

theorem calibration_complete_success_starts_tracking:
  "r = handleBackendMessage w (calibration_complete True samples is_tune) s \<Longrightarrow>
     isCalibrated (final r) \<and>
     overlay_display (calibrationOverlay (final r)) = ''none'' \<and>
     runTask w SendFrame (final r) = Done (final r) \<and>
     (isActive s \<and> ws s = Some OPEN \<and> ctx s \<and> videoElement s \<and> canvas s \<longrightarrow>
        r = Done (final r) \<and> isActive (final r) \<and>
        effects (final r) =
          effects s @ [SetTimeout HideStatus 3000, Send (track_gaze (cameraFrame w)),
                       RequestAnimationFrame TrackLoop] \<and>
        effects (iterateTask w TrackLoop n (final r)) =
          effects (final r) @
            concat (replicate n
              [Send (track_gaze (cameraFrame w)), RequestAnimationFrame TrackLoop]))"
proof -
  assume r: "r = handleBackendMessage w (calibration_complete True samples is_tune) s"
  define msg where "msg =
    (if is_tune then ''Tune complete! Model improved with '' @ samples @ '' total samples''
     else ''Calibration complete! ('' @ samples @ '' samples)'')"
  define s2 where "s2 =
    emit (SetTimeout HideStatus 3000)
      (showStatus msg (hideCalibration (s\<lparr>isCalibrated := True\<rparr>)))"
  have r2: "r = trackLoop w s2"
    by (simp add: r s2_def msg_def startTracking_def Let_def)
  have cal: "isCalibrated s2"
    by (simp add: s2_def emit_fields showStatus_fields hideCalibration_fields)
  have ov: "overlay_display (calibrationOverlay s2) = ''none''"
    by (simp add: s2_def emit_fields showStatus_fields hideCalibration_fields)
  have eff: "effects s2 = effects s @ [SetTimeout HideStatus 3000]"
    by (simp add: s2_def emit_fields showStatus_fields hideCalibration_fields)
  have same: "isActive s2 = isActive s" "ws s2 = ws s" "ctx s2 = ctx s"
    "videoElement s2 = videoElement s" "canvas s2 = canvas s"
    by (simp_all add: s2_def emit_fields showStatus_fields hideCalibration_fields)
  have flag: "isCalibrated (final r)"
    by (simp add: r2 trackLoop_fields cal)
  have hidden: "overlay_display (calibrationOverlay (final r)) = ''none''"
    by (simp add: r2 trackLoop_fields ov)
  have stopped: "runTask w SendFrame (final r) = Done (final r)"
    using flag by (simp add: sendFrame_stopped)
  have tracking: "r = Done (final r) \<and> isActive (final r) \<and>
        effects (final r) =
          effects s @ [SetTimeout HideStatus 3000, Send (track_gaze (cameraFrame w)),
                       RequestAnimationFrame TrackLoop] \<and>
        effects (iterateTask w TrackLoop n (final r)) =
          effects (final r) @
            concat (replicate n
              [Send (track_gaze (cameraFrame w)), RequestAnimationFrame TrackLoop])"
    if live: "isActive s \<and> ws s = Some OPEN \<and> ctx s \<and> videoElement s \<and> canvas s"
  proof -
    have first: "r = Done (emit (RequestAnimationFrame TrackLoop)
                            (emit (Send (track_gaze (cameraFrame w))) s2))"
      using live cal by (simp add: r2 trackLoop_live same)
    have on: "isActive (final r)" "ws (final r) = Some OPEN"
      "ctx (final r) \<and> videoElement (final r) \<and> canvas (final r)"
      using live by (simp_all add: first emit_fields same)
    show ?thesis
      using live tracking_stream_runs [OF on(1) flag on(2) on(3), of w n]
      by (simp add: first emit_fields same eff)
  qed
  show ?thesis
    using flag hidden stopped tracking by blast
qed

theorem calibration_complete_success_starts_tracking_witness:
  "isActive midCalibration \<and> ws midCalibration = Some OPEN \<and> ctx midCalibration \<and>
   videoElement midCalibration \<and> canvas midCalibration \<and>
   \<not> isCalibrated midCalibration \<and>
   isCalibrated
     (final (handleBackendMessage demoPage (calibration_complete True ''25'' False)
        midCalibration)) \<and>
   effects
     (final (handleBackendMessage demoPage (calibration_complete True ''25'' False)
        midCalibration)) =
     effects midCalibration @
       [SetTimeout HideStatus 3000, Send (track_gaze ''data:image/jpeg;base64,AAAA''),
        RequestAnimationFrame TrackLoop] \<and>
   isActive tuningSession \<and> ws tuningSession = Some OPEN \<and> ctx tuningSession \<and>
   videoElement tuningSession \<and> canvas tuningSession \<and>
   effects
     (final (handleBackendMessage demoPage (calibration_complete True ''35'' True)
        tuningSession)) =
     effects tuningSession @
       [SetTimeout HideStatus 3000, Send (track_gaze ''data:image/jpeg;base64,AAAA''),
        RequestAnimationFrame TrackLoop]"
  using calibration_complete_success_starts_tracking
    [where r = "handleBackendMessage demoPage (calibration_complete True ''25'' False)
                  midCalibration"
       and w = demoPage and samples = "''25''" and is_tune = False and s = midCalibration]
    calibration_complete_success_starts_tracking
    [where r = "handleBackendMessage demoPage (calibration_complete True ''35'' True)
                  tuningSession"
       and w = demoPage and samples = "''35''" and is_tune = True and s = tuningSession]
  by (simp add: scenario_defs controller_defs)

text \<open>
  C2. \<^verbatim>\<open>startTune()\<close> with the calibrated flag false is refused locally: the only effect
  is the alert \<^verbatim>\<open>Please calibrate first before tuning!\<close>, nothing is written to the socket
  and no field changes. With the flag true and the socket open, exactly one
  \<^verbatim>\<open>start_tune\<close> is written and the controller is in its tuning display: overlay shown,
  point index 0, the tuning status text.
\<close>

theorem startTune_guard:
  "(\<not> isCalibrated s \<longrightarrow>
      startTune s = Done (emit (Alert ''Please calibrate first before tuning!'') s) \<and>
      sent (effects (final (startTune s))) = sent (effects s)) \<and>
   (isCalibrated s \<and> ws s = Some OPEN \<longrightarrow>
      startTune s = Done (final (startTune s)) \<and>
      effects (final (startTune s)) = effects s @ [Send start_tune] \<and>
      overlay_display (calibrationOverlay (final (startTune s))) = ''block'' \<and>
      currentCalibrationIndex (final (startTune s)) = 0 \<and>
      textContent (statusElement (final (startTune s))) =
        ''Starting tune with 10 random points...'')"
  by (simp add: startTune_def ws_send_def emit_def showOverlay_def showStatus_def sent_append)

theorem startTune_guard_witness:
  "\<not> isCalibrated midCalibration \<and>
   effects (final (startTune midCalibration)) =
     effects midCalibration @ [Alert ''Please calibrate first before tuning!''] \<and>
   isCalibrated trackingSession \<and> ws trackingSession = Some OPEN \<and>
   effects (final (startTune trackingSession)) = effects trackingSession @ [Send start_tune]"
  using startTune_guard [of midCalibration] startTune_guard [of trackingSession]
  by (simp add: scenario_defs controller_defs)

text \<open>
  C3. Soft close: the \<^verbatim>\<open>beforeunload\<close> listener writes no command to the socket, whatever
  the state; in an active session with a socket its only effect is the call of
  \<^verbatim>\<open>close()\<close>. Hard close: \<^verbatim>\<open>deactivate()\<close> in an active session with an open socket writes
  exactly one \<^verbatim>\<open>stop\<close> and nothing else to the socket, leaves the socket open, and sets
  the timer of 100 ms whose callback calls \<^verbatim>\<open>close()\<close>; so \<^verbatim>\<open>close()\<close> comes after \<^verbatim>\<open>stop\<close>.
\<close>

theorem close_disciplines:
  "sent (effects (beforeunload s)) = sent (effects s) \<and>
   (isActive s \<and> ws s \<noteq> None \<longrightarrow> effects (beforeunload s) = effects s @ [SocketClose]) \<and>
   (isActive s \<and> ws s = Some OPEN \<longrightarrow>
      filter onSocket (effects (deactivate True s)) = filter onSocket (effects s) @ [Send stop] \<and>
      ws (deactivate True s) = Some OPEN \<and>
      SetTimeout CloseSocket 100 \<in> set (effects (deactivate True s)) \<and>
      filter onSocket (effects (final (runTask w CloseSocket (deactivate True s)))) =
        filter onSocket (effects s) @ [Send stop, SocketClose] \<and>
      ws (final (runTask w CloseSocket (deactivate True s))) = None)"
  by (simp add: beforeunload_def ws_close_def emit_def sent_append deactivate_def
      deactivate_begin_def deactivate_resume_def closeSocket_def hideStatus_def
      hideHighlight_def Let_def)

theorem close_disciplines_witness:
  "isActive trackingSession \<and> ws trackingSession = Some OPEN \<and>
   effects (beforeunload trackingSession) = effects trackingSession @ [SocketClose] \<and>
   effects (final (runTask demoPage CloseSocket (deactivate True trackingSession))) =
     effects trackingSession @
       [StorageSet False, Send stop, RecognitionStop, StopTracks, SetTimeout CloseSocket 100,
        RemoveVideo, SocketClose]"
  using close_disciplines [of trackingSession demoPage]
  by (simp add: scenario_defs controller_defs)

text \<open>
  C4, as amended. An inbound \<^verbatim>\<open>calibration_complete\<close> with \<^verbatim>\<open>success = false\<close> is a
  no-op: the handler returns and leaves the controller exactly as it was. So nothing is
  added to the effects (no tracking frame is sent, no tracking loop is armed), the
  calibrated flag is what it was (a session that was not calibrated remains so), and
  the calibration points and the point index are kept, not cleared.
\<close>

theorem failed_completion_keeps_state:
  "r = handleBackendMessage w (calibration_complete False samples is_tune) s \<Longrightarrow>
     r = Done s \<and> effects (final r) = effects s \<and>
     isCalibrated (final r) = isCalibrated s \<and> isActive (final r) = isActive s \<and>
     calibrationPoints (final r) = calibrationPoints s \<and>
     currentCalibrationIndex (final r) = currentCalibrationIndex s"
  by simp

theorem failed_completion_keeps_state_witness:
  "handleBackendMessage demoPage (calibration_complete False ''0'' False) midCalibration =
     Done midCalibration \<and>
   \<not> isCalibrated
       (final (handleBackendMessage demoPage (calibration_complete False ''0'' False)
          midCalibration)) \<and>
   effects
     (final (handleBackendMessage demoPage (calibration_complete False ''0'' False)
        midCalibration)) = effects midCalibration \<and>
   currentCalibrationIndex
     (final (handleBackendMessage demoPage (calibration_complete False ''0'' False)
        midCalibration)) = 2"
  using failed_completion_keeps_state
    [where r = "handleBackendMessage demoPage (calibration_complete False ''0'' False)
                  midCalibration"
       and w = demoPage and samples = "''0''" and is_tune = False and s = midCalibration]
  by (simp add: scenario_defs controller_defs)

text \<open>
  C4 as it was stated fails: after the failed completion of a calibration that had
  reached its third point, the five points are still there, the point index is still 2,
  and the overlay is still displayed with the pulse it showed.
\<close>

theorem failed_completion_counterexample:
  "length (calibrationPoints abortedCalibration) = 5 \<and>
   currentCalibrationIndex abortedCalibration = 2 \<and>
   overlay_display (calibrationOverlay abortedCalibration) = ''block'' \<and>
   innerHTML (calibrationOverlay abortedCalibration) = PulseHtml 900 80 (1/2) 3"
  by (simp add: scenario_defs controller_defs)

text \<open>
  C5. The classifier is a union of signals: it returns true on an interactive tag, an
  interactive role and a pointer cursor (\<open>isClickable_tag\<close>, \<open>isClickable_role\<close>,
  \<open>isClickable_cursor\<close>), and on an element whose \<^verbatim>\<open>className\<close> is a string it returns
  exactly whether one of the six signals is there (\<open>isClickable_string_class\<close>). On the
  \<^verbatim>\<open>svg\<close> icon of the page, which shows none of the six signals, it does not return
  false: it raises \<^verbatim>\<open>TypeError\<close>.
\<close>

theorem isClickable_svg_icon_raises:
  "\<not> spec_signals (elementOf demoPage 4) \<and> isClickable demoPage (Some 4) = Inl TypeError"
  by (simp add: spec_signals_def scenario_defs classifier_defs)

text \<open>
  C6, as amended. The body and the root element are never highlighted: if the highlight
  is hidden whenever one of them is the snap target, then the same holds after any gaze
  sample, whatever the classifier returns for them. (The condition holds in the initial
  state and is kept by every message and start command: \<open>init_root\<close>, \<open>run_root\<close>.)
\<close>

theorem body_root_never_highlighted:
  "rootNotHighlighted w s \<Longrightarrow> rootNotHighlighted w (final (updateGaze w d s))"
  unfolding rootNotHighlighted_def using snap_keeps_root_hidden [of s w d]
  by (simp add: updateGaze_fields)

theorem body_root_never_highlighted_witness:
  "rootNotHighlighted demoPage snappedSession \<and>
   style_display (highlightBox snappedSession) = ''block'' \<and>
   isClickable demoPage (Some (body demoPage)) = Inr True \<and>
   currentElement (final (updateGaze demoPage (gazeAt (1/2) (1/16) False) snappedSession)) =
     Some (body demoPage) \<and>
   style_display
     (highlightBox (final (updateGaze demoPage (gazeAt (1/2) (1/16) False) snappedSession))) =
     ''none''"
  using body_root_never_highlighted [of demoPage snappedSession "gazeAt (1/2) (1/16) False"]
  by (simp add: rootNotHighlighted_def scenario_defs controller_defs classifier_defs)

text \<open>
  C6 as it was stated fails: in the tracking session, one sample over the body with a
  double blink makes the body the snap target and clicks it.
\<close>

theorem body_snap_counterexample:
  "currentElement
     (run demoPage [Inbound (gaze_update (gazeAt (1/2) (1/16) True))] trackingSession) =
     Some (body demoPage) \<and>
   Click (body demoPage) \<in>
     set (effects
            (run demoPage [Inbound (gaze_update (gazeAt (1/2) (1/16) True))] trackingSession))"
  by (simp add: scenario_defs controller_defs classifier_defs)

text \<open>
  C7. A gaze sample whose \<open>x\<close> or \<open>y\<close> is \<^verbatim>\<open>null\<close>: the block that resolves the element is
  skipped whole (no field changes in it), and after the sample the snap target and the
  highlight box (display and geometry) are what they were.
\<close>

theorem null_gaze_keeps_target:
  "gaze_x d = None \<or> gaze_y d = None \<Longrightarrow>
     updateGaze_snap w d s = Done s \<and>
     currentElement (final (updateGaze w d s)) = currentElement s \<and>
     highlightBox (final (updateGaze w d s)) = highlightBox s"
  by (simp add: updateGaze_def snap_null blink_fields)

theorem null_gaze_keeps_target_witness:
  "(gaze_x (gazeLost True) = None \<or> gaze_y (gazeLost True) = None) \<and>
   currentElement (final (updateGaze demoPage (gazeLost True) snappedSession)) = Some 2 \<and>
   style_display (highlightBox (final (updateGaze demoPage (gazeLost True) snappedSession))) =
     ''block''"
  using null_gaze_keeps_target [of "gazeLost True" demoPage snappedSession]
  by (simp add: scenario_defs controller_defs classifier_defs)

text \<open>
  C8, as amended. The calibration stream is started by the handler of
  \<^verbatim>\<open>calibration_started\<close>. An iteration in an active session whose calibrated flag is
  false sends one \<^verbatim>\<open>calibration_frame\<close> if the socket is open and re-arms itself on the
  display refresh, so with the socket open \<open>n\<close> refreshes send \<open>n\<close> frames; an iteration
  that finds the session inactive or the calibrated flag true sends nothing and does
  not re-arm.
\<close>

theorem calibration_stream_condition:
  "handleBackendMessage w (calibration_started points) s =
     sendFrame w
       (showOverlay
          (showStatus ''Look at the screen and hold still...''
             (s\<lparr>calibrationPoints := points\<rparr>))) \<and>
   (isActive s \<and> \<not> isCalibrated s \<and> ctx s \<and> videoElement s \<and> canvas s \<longrightarrow>
      runTask w SendFrame s =
        Done (emit (RequestAnimationFrame SendFrame)
               (if ws s = Some OPEN then emit (Send (calibration_frame (cameraFrame w))) s
                else s))) \<and>
   (isActive s \<and> \<not> isCalibrated s \<and> ctx s \<and> videoElement s \<and> canvas s \<and>
    ws s = Some OPEN \<longrightarrow>
      effects (iterateTask w SendFrame n s) =
        effects s @
          concat (replicate n
            [Send (calibration_frame (cameraFrame w)), RequestAnimationFrame SendFrame])) \<and>
   (\<not> isActive s \<or> isCalibrated s \<longrightarrow> runTask w SendFrame s = Done s)"
  using sendFrame_live [of s w] sendFrame_stopped [of s w] calibration_stream_runs [of s w n]
  by (simp add: startSendingCalibrationFrames_def)

theorem calibration_stream_condition_witness:
  "isActive midCalibration \<and> \<not> isCalibrated midCalibration \<and> ctx midCalibration \<and>
   videoElement midCalibration \<and> canvas midCalibration \<and>
   effects (final (runTask demoPage SendFrame midCalibration)) =
     effects midCalibration @
       [Send (calibration_frame ''data:image/jpeg;base64,AAAA''),
        RequestAnimationFrame SendFrame] \<and>
   isCalibrated trackingSession \<and>
   runTask demoPage SendFrame trackingSession = Done trackingSession"
  using calibration_stream_condition [of demoPage fivePoints midCalibration 1]
    calibration_stream_condition [of demoPage fivePoints trackingSession 1]
  by (simp add: scenario_defs controller_defs)

text \<open>
  C8 as it was stated fails, against the state graph of the specification. After a
  calibration is requested and a face countdown received the graph is in
  \<open>AwaitingFaceLock\<close>, and no iteration of the calibration stream has been requested.
  After a tuning pass is requested in the tracking session and its points are announced
  the graph is in \<open>PointPulse\<close>, no calibration frame has been sent, no iteration is
  requested, and an iteration would send nothing. After a failed completion the graph
  is back in \<open>Idle\<close>, the iteration requested last is still due, and it sends a frame and
  re-arms.
\<close>

theorem calibration_stream_counterexample:
  "spec_run Idle faceLockStimuli = AwaitingFaceLock \<and>
   RequestAnimationFrame SendFrame \<notin> set (effects (run demoPage faceLockStimuli activeSession)) \<and>
   spec_run Idle tuneStimuli = PointPulse 0 \<and>
   filter isCalibrationFrame (effects tuningSession) = [] \<and>
   RequestAnimationFrame SendFrame \<notin> set (effects tuningSession) \<and>
   runTask demoPage SendFrame tuningSession = Done tuningSession \<and>
   spec_run Idle abortStimuli = Idle \<and>
   last (effects (run demoPage abortStimuli activeSession)) = RequestAnimationFrame SendFrame \<and>
   effects (final (runTask demoPage SendFrame (run demoPage abortStimuli activeSession))) =
     effects (run demoPage abortStimuli activeSession) @
       [Send (calibration_frame ''data:image/jpeg;base64,AAAA''),
        RequestAnimationFrame SendFrame]"
  by (simp add: scenario_defs controller_defs faceLockStimuli_def abortStimuli_def)

text \<open>
  C9. A gaze sample, with or without a double blink, that finds no snap target when the
  double-blink test is reached (that is, after the sample's own coordinates have been
  processed) invokes no activation: the method ends with the first statement, and the
  effect list is what it was, so there is no click, no tint and no timer.
\<close>

theorem blink_without_target_is_noop:
  "currentElement (final (updateGaze_snap w d s)) = None \<Longrightarrow>
     updateGaze w d s = updateGaze_snap w d s \<and>
     effects (final (updateGaze w d s)) = effects s"
  by (cases "updateGaze_snap w d s")
    (use snap_effects [of w d s] in \<open>simp_all add: updateGaze_def updateGaze_blink_def\<close>)

theorem blink_without_target_is_noop_witness:
  "double_blink (gazeAt (1/2) (5/16) True) \<and>
   currentElement (final (updateGaze_snap demoPage (gazeAt (1/2) (5/16) True) snappedSession)) =
     None \<and>
   effects (final (updateGaze demoPage (gazeAt (1/2) (5/16) True) snappedSession)) =
     effects snappedSession"
  using blink_without_target_is_noop [of demoPage "gazeAt (1/2) (5/16) True" snappedSession]
  by (simp add: scenario_defs controller_defs classifier_defs)

text \<open>
  C10. With a double blink and a snap target, \<^verbatim>\<open>clickElement\<close> is invoked whether or not the
  sample has coordinates (\<open>double_blink_activates\<close>), and on an HTML target the click
  follows. On a target that is not an HTML element it does not: the \<^verbatim>\<open>svg\<close> icon inside
  the button has the pointer cursor, so the classifier accepts it and a sample over it
  makes it the snap target; a following sample with \<^verbatim>\<open>null\<close> coordinates and a double
  blink tints it and sets the timer, and then \<^verbatim>\<open>element.click()\<close> raises \<^verbatim>\<open>TypeError\<close>, an
  SVG element having no such method. No click is dispatched.
\<close>

theorem double_blink_on_svg_target_raises:
  "isClickable demoPage (Some 5) = Inr True \<and>
   currentElement svgSnappedSession = Some 5 \<and>
   iface (elementOf demoPage 5) = SVGElement \<and>
   updateGaze demoPage (gazeLost True) svgSnappedSession =
     Threw TypeError
       (emit (SetTimeout (RestoreBackground 5 ''white'') 200)
          (emit (SetBackground 5 ''rgba(0, 255, 0, 0.3)'') svgSnappedSession)) \<and>
   Click 5 \<notin> set (effects (final (updateGaze demoPage (gazeLost True) svgSnappedSession)))"
  by (simp add: scenario_defs controller_defs classifier_defs)

end
